theory Spec2Isabelle
  imports Complex_Main
begin

section \<open>Values, exceptions and the log\<close>

text \<open>
  The module \<^verbatim>\<open>utils.py\<close> handles Python floats. A float is modelled as an exact real
  number or NaN (a missing raster cell, or the result of a reduction over no value).
  Rounding, overflow and the infinities are not modelled.
\<close>

datatype fval = Val real | NaN

text \<open>
  The exceptions the module raises itself or receives from its collaborators. Each
  constructor is a Python exception class (all of them subclasses of \<^verbatim>\<open>Exception\<close>), with
  the data that tells two raise sites apart:
  \<^item> \<open>OSError\<close>: \<^verbatim>\<open>open\<close> failed on the reference file;
  \<^item> \<open>JSONDecodeError\<close>: \<^verbatim>\<open>json.load\<close> failed;
  \<^item> \<open>TypeError\<close>, \<open>KeyError k\<close>: a subscript, an iteration or a membership test on a
    value of the wrong shape, a key \<open>k\<close> that a mapping does not have;
  \<^item> \<open>AttributeError\<close>: a method called on a value that does not have it;
  \<^item> \<open>ValueError_not_found s\<close>: line 55, no reference data for scenario \<open>s\<close>;
  \<^item> \<open>ValueError_zero_size\<close>: a reduction without identity on a variable with no cell;
  \<^item> \<open>AssertionError\<close>: the \<^verbatim>\<open>assert\<close> of line 89;
  \<^item> \<open>BackendError m\<close>: any exception of the job client or of the dataset reader.
\<close>

datatype exn =
    OSError
  | JSONDecodeError
  | TypeError
  | KeyError string
  | AttributeError
  | ValueError_not_found string
  | ValueError_zero_size
  | AssertionError
  | BackendError string

text \<open>
  The records written to the module's logger \<^verbatim>\<open>_log\<close>, one constructor per logging
  call of the source, carrying the values its message interpolates.
\<close>

datatype log_entry =
    Info_extracting string
  | Error_extracting exn
  | Info_comparing
  | Warning_band_not_found string
  | Warning_stat_not_found string string
  | Info_assertion string string
  | Error_execution exn

datatype level = INFO | WARNING | ERROR

fun level_of :: "log_entry \<Rightarrow> level" where
  "level_of (Info_extracting _) = INFO"
| "level_of (Error_extracting _) = ERROR"
| "level_of Info_comparing = INFO"
| "level_of (Warning_band_not_found _) = WARNING"
| "level_of (Warning_stat_not_found _ _) = WARNING"
| "level_of (Info_assertion _ _) = INFO"
| "level_of (Error_execution _) = ERROR"

text \<open>
  A run of a function is its outcome (an exception or a value) and the log records it
  wrote, oldest first.
\<close>

type_synonym 'a run = "(exn + 'a) \<times> log_entry list"

definition emit :: "log_entry \<Rightarrow> 'a run \<Rightarrow> 'a run" where
  "emit e r = (fst r, e # snd r)"

text \<open>
  A Python \<^verbatim>\<open>dict\<close> with string keys is an association list in insertion order; its keys
  are distinct. \<open>map_of\<close> is the lookup, \<open>dict_set\<close> the assignment \<^verbatim>\<open>d[k] = v\<close>.
\<close>

type_synonym 'v dict = "(string \<times> 'v) list"

fun dict_set :: "string \<Rightarrow> 'v \<Rightarrow> 'v dict \<Rightarrow> 'v dict" where
  "dict_set k v [] = [(k, v)]"
| "dict_set k v ((k', v') # d) = (if k = k' then (k, v) # d else (k', v') # dict_set k v d)"

type_synonym band_stats = "fval dict"
type_synonym statistics = "band_stats dict"

section \<open>StatisticsComparator: \<^verbatim>\<open>assert_band_statistics\<close>\<close>

text \<open>
  Modelled from the spec: \<^verbatim>\<open>pytest.approx\<close> is the test framework's approximate-equality
  primitive, a collaborator outside the repository. The spec gives its meaning as
  \<^verbatim>\<open>|a-b| <= tolerance * |b|\<close> with the library-default epsilon for references near
  zero; the library's default absolute tolerance is \<open>1e-12\<close>, and the larger of the two
  bounds applies. An order comparison with NaN is false, so NaN is approximately equal to
  nothing. \<open>approx expected rel actual\<close> stands for
  \<^verbatim>\<open>actual == pytest.approx(expected, rel=rel)\<close>. The model follows the formula for
  every tolerance; what the library does with a tolerance it rejects (a negative one) is
  not described by the spec and not modelled.
\<close>

definition DEFAULT_ABSOLUTE_TOLERANCE :: real where
  "DEFAULT_ABSOLUTE_TOLERANCE = 1 / 10 ^ 12"

text \<open>
  Modelled from the spec: the comparison \<^verbatim>\<open>actual == pytest.approx(expected, rel=rel)\<close>
  of the test framework, which is not part of the repository.
\<close>

fun approx :: "fval \<Rightarrow> real \<Rightarrow> fval \<Rightarrow> bool" where
  "approx (Val expected) rel (Val actual) =
     (\<bar>expected - actual\<bar> \<le> max (rel * \<bar>expected\<bar>) DEFAULT_ABSOLUTE_TOLERANCE)"
| "approx _ _ _ = False"

text \<open>
  Lines 81 to 89, the loop over the items of the reference's mapping of one band:
  a statistic the output lacks is warned about and skipped; otherwise the assertion is
  announced, then made, and a failed assertion ends the run there.
\<close>

fun assert_stats :: "string \<Rightarrow> band_stats \<Rightarrow> band_stats \<Rightarrow> real \<Rightarrow> unit run" where
  "assert_stats output_band_name output_band_stats [] tolerance = (Inr (), [])"
| "assert_stats output_band_name output_band_stats ((stat, gt_value) # gt_band_stats) tolerance =
     (case map_of output_band_stats stat of
        None \<Rightarrow>
          emit (Warning_stat_not_found stat output_band_name)
            (assert_stats output_band_name output_band_stats gt_band_stats tolerance)
      | Some output_stat \<Rightarrow>
          emit (Info_assertion output_band_name stat)
            (if approx gt_value tolerance output_stat
             then assert_stats output_band_name output_band_stats gt_band_stats tolerance
             else (Inl AssertionError, [])))"

text \<open>
  Lines 74 to 80, the loop over the items of the output: a band the reference lacks is
  warned about and skipped.
\<close>

fun assert_bands :: "statistics \<Rightarrow> statistics \<Rightarrow> real \<Rightarrow> unit run" where
  "assert_bands [] groundtruth_band_dict tolerance = (Inr (), [])"
| "assert_bands ((output_band_name, output_band_stats) # rest) groundtruth_band_dict tolerance =
     (case map_of groundtruth_band_dict output_band_name of
        None \<Rightarrow>
          emit (Warning_band_not_found output_band_name)
            (assert_bands rest groundtruth_band_dict tolerance)
      | Some gt_band_stats \<Rightarrow>
          (case assert_stats output_band_name output_band_stats gt_band_stats tolerance of
             (Inl e, l) \<Rightarrow> (Inl e, l)
           | (Inr _, l) \<Rightarrow>
               (case assert_bands rest groundtruth_band_dict tolerance of
                  (r, l') \<Rightarrow> (r, l @ l'))))"

definition assert_band_statistics :: "statistics \<Rightarrow> statistics \<Rightarrow> real \<Rightarrow> unit run" where
  "assert_band_statistics output_band_stats groundtruth_band_dict tolerance =
     emit Info_comparing (assert_bands output_band_stats groundtruth_band_dict tolerance)"

section \<open>ReferenceLoader: \<^verbatim>\<open>extract_reference_band_statistics\<close>\<close>

text \<open>
  What \<^verbatim>\<open>json.load\<close> returns: \<open>JObject\<close> is a Python \<^verbatim>\<open>dict\<close> (distinct keys, in file
  order), \<open>JArray\<close> a \<^verbatim>\<open>list\<close>, \<open>JNumber\<close> an \<^verbatim>\<open>int\<close> or a \<^verbatim>\<open>float\<close>.
\<close>

datatype json =
    JNull
  | JBool bool
  | JNumber fval
  | JString string
  | JArray "json list"
  | JObject "(string \<times> json) list"

text \<open>
  \<^verbatim>\<open>for scenario_data in all_reference_data\<close>: a list yields its elements, a mapping its
  keys, a string its characters; any other value is not iterable.
\<close>

fun iterate :: "json \<Rightarrow> exn + json list" where
  "iterate (JArray xs) = Inr xs"
| "iterate (JObject kvs) = Inr (map (\<lambda>kv. JString (fst kv)) kvs)"
| "iterate (JString s) = Inr (map (\<lambda>c. JString [c]) s)"
| "iterate _ = Inl TypeError"

text \<open>
  \<^verbatim>\<open>scenario_data[key]\<close> with a string key: a mapping looks the key up (\<^verbatim>\<open>KeyError\<close> when
  it is absent), every other value raises \<^verbatim>\<open>TypeError\<close>.
\<close>

fun subscript :: "json \<Rightarrow> string \<Rightarrow> exn + json" where
  "subscript (JObject kvs) key =
     (case map_of kvs key of None \<Rightarrow> Inl (KeyError key) | Some v \<Rightarrow> Inr v)"
| "subscript _ key = Inl TypeError"

text \<open>Lines 51 to 55: the scan for the first record of the scenario.\<close>

fun scan :: "json list \<Rightarrow> string \<Rightarrow> exn + json" where
  "scan [] scenario_name = Inl (ValueError_not_found scenario_name)"
| "scan (scenario_data # rest) scenario_name =
     (case subscript scenario_data ''scenario_name'' of
        Inl e \<Rightarrow> Inl e
      | Inr name \<Rightarrow>
          if name = JString scenario_name
          then subscript scenario_data ''reference_data''
          else scan rest scenario_name)"

text \<open>
  The reference file \<^verbatim>\<open>groundtruth_regression_test.json\<close> is a parameter: \<open>Inl e\<close> when
  opening or parsing it raises \<open>e\<close>, \<open>Inr j\<close> when it parses to \<open>j\<close>. Every exception of
  the \<^verbatim>\<open>try\<close> block is logged and raised again (lines 57 to 59).
\<close>

definition extract_reference_band_statistics :: "exn + json \<Rightarrow> string \<Rightarrow> json run" where
  "extract_reference_band_statistics reference_file scenario_name =
     emit (Info_extracting scenario_name)
       (case (case reference_file of
                Inl e \<Rightarrow> Inl e
              | Inr all_reference_data \<Rightarrow>
                  (case iterate all_reference_data of
                     Inl e \<Rightarrow> Inl e
                   | Inr records \<Rightarrow> scan records scenario_name)) of
          Inl e \<Rightarrow> (Inl e, [Error_extracting e])
        | Inr reference_data \<Rightarrow> (Inr reference_data, []))"

section \<open>StatisticsCalculator: \<^verbatim>\<open>calculate_band_statistics\<close>\<close>

text \<open>
  A dataset is the mapping \<^verbatim>\<open>data_vars\<close> from variable names to arrays; an array is the
  list of its cells, whatever its dimensions, since every reduction runs over all of them.
\<close>

type_synonym data_array = "fval list"
type_synonym dataset = "data_array dict"

fun valid :: "data_array \<Rightarrow> real list" where
  "valid [] = []"
| "valid (Val x # cells) = x # valid cells"
| "valid (NaN # cells) = valid cells"

text \<open>
  Modelled from the spec: the reductions of the array library (\<^verbatim>\<open>mean\<close>, \<^verbatim>\<open>var\<close>,
  \<^verbatim>\<open>min\<close>, \<^verbatim>\<open>max\<close> and \<^verbatim>\<open>quantile\<close> of an xarray \<^verbatim>\<open>DataArray\<close>) are outside the
  repository. The spec: mean, population variance, minimum, maximum and the percentiles
  over all values, skipping missing cells. A reduction over no valid value is NaN, as
  \<open>0 / 0\<close> is in floating point; minimum and maximum of an array with no cell at all
  raise (they have no identity). Percentiles interpolate linearly between the two
  nearest ranks of the sorted values.
\<close>

definition xr_mean :: "data_array \<Rightarrow> fval" where
  "xr_mean band_data =
     (let xs = valid band_data in
      if xs = [] then NaN else Val (sum_list xs / real (length xs)))"

text \<open>
  Modelled from the spec: \<^verbatim>\<open>DataArray.var\<close> of the array library, the population
  variance of the valid cells.
\<close>

definition xr_var :: "data_array \<Rightarrow> fval" where
  "xr_var band_data =
     (let xs = valid band_data in
      if xs = [] then NaN
      else let m = sum_list xs / real (length xs) in
           Val (sum_list (map (\<lambda>x. (x - m) ^ 2) xs) / real (length xs)))"

text \<open>
  Modelled from the spec: \<^verbatim>\<open>DataArray.min\<close> of the array library, the least valid cell.
\<close>

definition xr_min :: "data_array \<Rightarrow> exn + fval" where
  "xr_min band_data =
     (if band_data = [] then Inl ValueError_zero_size
      else case valid band_data of [] \<Rightarrow> Inr NaN | x # xs \<Rightarrow> Inr (Val (fold min xs x)))"

text \<open>
  Modelled from the spec: \<^verbatim>\<open>DataArray.max\<close> of the array library, the greatest valid
  cell.
\<close>

definition xr_max :: "data_array \<Rightarrow> exn + fval" where
  "xr_max band_data =
     (if band_data = [] then Inl ValueError_zero_size
      else case valid band_data of [] \<Rightarrow> Inr NaN | x # xs \<Rightarrow> Inr (Val (fold max xs x)))"

text \<open>
  Modelled from the spec: one percentile of the array library's \<^verbatim>\<open>DataArray.quantile\<close>,
  by linear interpolation at the rank \<open>q * (n - 1)\<close> of the sorted valid cells.
\<close>

definition quantile1 :: "real list \<Rightarrow> real \<Rightarrow> fval" where
  "quantile1 xs q =
     (if xs = [] then NaN
      else let sorted_xs = sort xs;
               n = length sorted_xs;
               h = q * real (n - 1);
               lo = nat \<lfloor>h\<rfloor>;
               hi = min (lo + 1) (n - 1)
           in Val (sorted_xs ! lo + (h - real lo) * (sorted_xs ! hi - sorted_xs ! lo)))"

text \<open>
  Modelled from the spec: \<^verbatim>\<open>DataArray.quantile\<close> of the array library, one value per
  requested percentile.
\<close>

definition xr_quantile :: "data_array \<Rightarrow> real list \<Rightarrow> fval list" where
  "xr_quantile band_data qs = map (quantile1 (valid band_data)) qs"

text \<open>
  Lines 106 to 122, the loop over the band names. \<^verbatim>\<open>hypercube[band_name]\<close> raises
  \<^verbatim>\<open>KeyError\<close> for a name the dataset lacks. The reductions run in the source's order,
  so the first one that raises ends the run. \<open>quantiles ! 0\<close>, \<open>! 1\<close> and \<open>! 2\<close> are
  in range: \<open>xr_quantile\<close> returns one value per requested percentile.
\<close>

fun calculate_loop :: "dataset \<Rightarrow> string list \<Rightarrow> statistics \<Rightarrow> exn + statistics" where
  "calculate_loop hypercube [] statistics = Inr statistics"
| "calculate_loop hypercube (band_name # band_names) statistics =
     (case map_of hypercube band_name of
        None \<Rightarrow> Inl (KeyError band_name)
      | Some band_data \<Rightarrow>
          (let mean_value = xr_mean band_data;
               variance_value = xr_var band_data
           in case xr_min band_data of
                Inl e \<Rightarrow> Inl e
              | Inr min_value \<Rightarrow>
                  (case xr_max band_data of
                     Inl e \<Rightarrow> Inl e
                   | Inr max_value \<Rightarrow>
                       (let quantiles = xr_quantile band_data [1 / 4, 1 / 2, 3 / 4]
                        in calculate_loop hypercube band_names
                             (dict_set band_name
                                [(''mean'', mean_value),
                                 (''variance'', variance_value),
                                 (''min'', min_value),
                                 (''max'', max_value),
                                 (''quantile25'', quantiles ! 0),
                                 (''quantile50'', quantiles ! 1),
                                 (''quantile75'', quantiles ! 2)]
                                statistics)))))"

definition calculate_band_statistics :: "dataset \<Rightarrow> exn + statistics" where
  "calculate_band_statistics hypercube =
     (let band_names = filter (\<lambda>band_name. band_name \<noteq> ''crs'') (map fst hypercube)
      in calculate_loop hypercube band_names [])"

section \<open>Orchestrator: \<^verbatim>\<open>execute_and_assert\<close>\<close>

text \<open>
  The collaborators of the orchestrator are parameters. A cube is what its
  \<^verbatim>\<open>execute_batch\<close> does with the output path, the title, the description and the job
  options: \<open>Some e\<close> when it raises \<open>e\<close>, \<open>None\<close> when the job finished. The environment
  gives what \<^verbatim>\<open>xr.open_dataset\<close> returns for a path once the job has run, and the state
  of the reference file.
\<close>

type_synonym cube = "string \<Rightarrow> string \<Rightarrow> string \<Rightarrow> string dict \<Rightarrow> exn option"

record environment =
  open_dataset :: "string \<Rightarrow> exn + dataset"
  reference_file :: "exn + json"

text \<open>
  Python checks no type: the orchestrator hands the value the loader returned to the
  comparator as it is. The following definitions are lines 73 to 89 once more, for a
  reference that is any JSON value, with what Python does on each shape.

  \<^verbatim>\<open>output_band_name not in groundtruth_band_dict\<close>: a mapping tests its keys, a list its
  elements, a string its substrings; any other value raises \<^verbatim>\<open>TypeError\<close>.
\<close>

fun starts_with :: "string \<Rightarrow> string \<Rightarrow> bool" where
  "starts_with [] s = True"
| "starts_with (c # cs) [] = False"
| "starts_with (c # cs) (d # ds) = (c = d \<and> starts_with cs ds)"

fun substring_of :: "string \<Rightarrow> string \<Rightarrow> bool" where
  "substring_of name [] = (name = [])"
| "substring_of name (d # ds) = (starts_with name (d # ds) \<or> substring_of name ds)"

fun member_of :: "string \<Rightarrow> json \<Rightarrow> exn + bool" where
  "member_of name (JObject kvs) = Inr (map_of kvs name \<noteq> None)"
| "member_of name (JArray xs) = Inr (JString name \<in> set xs)"
| "member_of name (JString s) = Inr (substring_of name s)"
| "member_of name _ = Inl TypeError"

text \<open>
  \<^verbatim>\<open>gt_band_stats.items()\<close>: only a mapping has the method.
\<close>

fun items_of :: "json \<Rightarrow> exn + (string \<times> json) list" where
  "items_of (JObject kvs) = Inr kvs"
| "items_of _ = Inl AttributeError"

text \<open>
  Modelled from the spec: \<^verbatim>\<open>output_stat == pytest.approx(gt_value, rel=tolerance)\<close> for a
  reference value of any shape. The spec describes the comparison of two numbers; a
  reference value that is not a number is approximately equal to no float.
\<close>

fun approx_json :: "json \<Rightarrow> real \<Rightarrow> fval \<Rightarrow> bool" where
  "approx_json (JNumber gt_value) rel actual = approx gt_value rel actual"
| "approx_json _ rel actual = False"

fun assert_stats_json :: "string \<Rightarrow> band_stats \<Rightarrow> (string \<times> json) list \<Rightarrow> real \<Rightarrow> unit run" where
  "assert_stats_json output_band_name output_band_stats [] tolerance = (Inr (), [])"
| "assert_stats_json output_band_name output_band_stats ((stat, gt_value) # gt_band_stats)
     tolerance =
     (case map_of output_band_stats stat of
        None \<Rightarrow>
          emit (Warning_stat_not_found stat output_band_name)
            (assert_stats_json output_band_name output_band_stats gt_band_stats tolerance)
      | Some output_stat \<Rightarrow>
          emit (Info_assertion output_band_name stat)
            (if approx_json gt_value tolerance output_stat
             then assert_stats_json output_band_name output_band_stats gt_band_stats tolerance
             else (Inl AssertionError, [])))"

fun assert_bands_json :: "statistics \<Rightarrow> json \<Rightarrow> real \<Rightarrow> unit run" where
  "assert_bands_json [] groundtruth_band_dict tolerance = (Inr (), [])"
| "assert_bands_json ((output_band_name, output_band_stats) # rest) groundtruth_band_dict
     tolerance =
     (case member_of output_band_name groundtruth_band_dict of
        Inl e \<Rightarrow> (Inl e, [])
      | Inr False \<Rightarrow>
          emit (Warning_band_not_found output_band_name)
            (assert_bands_json rest groundtruth_band_dict tolerance)
      | Inr True \<Rightarrow>
          (case subscript groundtruth_band_dict output_band_name of
             Inl e \<Rightarrow> (Inl e, [])
           | Inr gt_band_stats \<Rightarrow>
               (case items_of gt_band_stats of
                  Inl e \<Rightarrow> (Inl e, [])
                | Inr gt_items \<Rightarrow>
                    (case assert_stats_json output_band_name output_band_stats gt_items
                            tolerance of
                       (Inl e, l) \<Rightarrow> (Inl e, l)
                     | (Inr _, l) \<Rightarrow>
                         (case assert_bands_json rest groundtruth_band_dict tolerance of
                            (r, l') \<Rightarrow> (r, l @ l'))))))"

definition assert_band_statistics_json :: "statistics \<Rightarrow> json \<Rightarrow> real \<Rightarrow> unit run" where
  "assert_band_statistics_json output_band_stats groundtruth_band_dict tolerance =
     emit Info_comparing
       (assert_bands_json output_band_stats groundtruth_band_dict tolerance)"

text \<open>
  Lines 145 to 158. The optional argument \<^verbatim>\<open>tolerance\<close> is \<open>None\<close> when the caller omits
  it. \<open>execute_steps\<close> is the \<^verbatim>\<open>try\<close> block, \<open>execute_and_assert\<close> adds the handler.
\<close>

definition execute_steps ::
  "environment \<Rightarrow> cube \<Rightarrow> string \<Rightarrow> string \<Rightarrow> real \<Rightarrow> unit run" where
  "execute_steps env cube output_path scenario_name tolerance =
     (case cube output_path scenario_name ''benchmarking-creo'' [(''driver-memory'', ''1g'')] of
        Some e \<Rightarrow> (Inl e, [])
      | None \<Rightarrow>
          (case open_dataset env output_path of
             Inl e \<Rightarrow> (Inl e, [])
           | Inr output_cube \<Rightarrow>
               (case calculate_band_statistics output_cube of
                  Inl e \<Rightarrow> (Inl e, [])
                | Inr output_band_stats \<Rightarrow>
                    (case extract_reference_band_statistics (reference_file env) scenario_name of
                       (Inl e, l) \<Rightarrow> (Inl e, l)
                     | (Inr groundtruth_band_stats, l) \<Rightarrow>
                         (case assert_band_statistics_json output_band_stats
                                 groundtruth_band_stats tolerance of
                            (r, l') \<Rightarrow> (r, l @ l'))))))"

definition execute_and_assert ::
  "environment \<Rightarrow> cube \<Rightarrow> string \<Rightarrow> string \<Rightarrow> real option \<Rightarrow> unit run" where
  "execute_and_assert env cube output_path scenario_name tolerance_arg =
     (let tolerance = (case tolerance_arg of None \<Rightarrow> 1 / 100 | Some t \<Rightarrow> t)
      in case execute_steps env cube output_path scenario_name tolerance of
           (Inl e, l) \<Rightarrow> (Inl e, l @ [Error_execution e])
         | (Inr u, l) \<Rightarrow> (Inr u, l))"

section \<open>Descriptions used in the statements\<close>

text \<open>
  The comparator's traversal, described on its own: the output's bands in order; a band
  the reference lacks is one event; otherwise the reference's statistics of that band in
  order, each one missing from the output or compared. \<open>until_failure\<close> keeps the events up
  to and including the first comparison out of tolerance.
\<close>

datatype event =
    Band_missing string
  | Stat_missing string string
  | Comparison string string fval fval

fun passes :: "real \<Rightarrow> event \<Rightarrow> bool" where
  "passes tolerance (Comparison band stat output_stat gt_value) =
     approx gt_value tolerance output_stat"
| "passes tolerance _ = True"

fun record_of :: "event \<Rightarrow> log_entry" where
  "record_of (Band_missing band) = Warning_band_not_found band"
| "record_of (Stat_missing stat band) = Warning_stat_not_found stat band"
| "record_of (Comparison band stat output_stat gt_value) = Info_assertion band stat"

definition band_events :: "string \<Rightarrow> band_stats \<Rightarrow> band_stats \<Rightarrow> event list" where
  "band_events band output_band_stats gt_band_stats =
     map (\<lambda>(stat, gt_value).
            case map_of output_band_stats stat of
              None \<Rightarrow> Stat_missing stat band
            | Some output_stat \<Rightarrow> Comparison band stat output_stat gt_value)
       gt_band_stats"

definition events :: "statistics \<Rightarrow> statistics \<Rightarrow> event list" where
  "events output_band_stats groundtruth_band_dict =
     concat (map (\<lambda>(band, stats).
                    case map_of groundtruth_band_dict band of
                      None \<Rightarrow> [Band_missing band]
                    | Some gt_band_stats \<Rightarrow> band_events band stats gt_band_stats)
               output_band_stats)"

fun until_failure :: "real \<Rightarrow> event list \<Rightarrow> event list" where
  "until_failure tolerance [] = []"
| "until_failure tolerance (e # es) =
     (if passes tolerance e then e # until_failure tolerance es else [e])"

text \<open>
  Two output bands are checked alike against a reference when they have the same name and
  agree on every statistic key of the reference's mapping for that band.
\<close>

definition same_checked ::
  "statistics \<Rightarrow> string \<times> band_stats \<Rightarrow> string \<times> band_stats \<Rightarrow> bool" where
  "same_checked groundtruth_band_dict x y =
     (fst x = fst y \<and>
      (case map_of groundtruth_band_dict (fst x) of
         None \<Rightarrow> True
       | Some gt_band_stats \<Rightarrow>
           list_all (\<lambda>stat. map_of (snd x) stat = map_of (snd y) stat)
             (map fst gt_band_stats)))"

text \<open>
  The records of the reference file, as the spec describes them: a mapping with the keys
  \<^verbatim>\<open>scenario_name\<close> and \<^verbatim>\<open>reference_data\<close>. A record is named \<open>s\<close> when its
  \<^verbatim>\<open>scenario_name\<close> is the string \<open>s\<close>.
\<close>

fun has_key :: "json \<Rightarrow> string \<Rightarrow> bool" where
  "has_key (JObject kvs) key = (map_of kvs key \<noteq> None)"
| "has_key _ key = False"

definition is_record :: "json \<Rightarrow> bool" where
  "is_record scenario_data =
     (has_key scenario_data ''scenario_name'' \<and> has_key scenario_data ''reference_data'')"

definition is_named :: "string \<Rightarrow> json \<Rightarrow> bool" where
  "is_named scenario_name scenario_data =
     (subscript scenario_data ''scenario_name'' = Inr (JString scenario_name))"

text \<open>
  A reference of the comparator's declared shape (bands to statistics to numbers), as the
  JSON value that \<^verbatim>\<open>json.load\<close> returns for it.
\<close>

definition json_of_band_stats :: "band_stats \<Rightarrow> json" where
  "json_of_band_stats gt_band_stats = JObject (map (\<lambda>kv. (fst kv, JNumber (snd kv))) gt_band_stats)"

definition json_of_statistics :: "statistics \<Rightarrow> json" where
  "json_of_statistics groundtruth_band_dict =
     JObject (map (\<lambda>kv. (fst kv, json_of_band_stats (snd kv))) groundtruth_band_dict)"

text \<open>
  The seven statistic names, and the mapping the calculator's loop body builds for a band
  whose array has at least one cell.
\<close>

definition STATISTIC_NAMES :: "string list" where
  "STATISTIC_NAMES =
     [''mean'', ''variance'', ''min'', ''max'', ''quantile25'', ''quantile50'', ''quantile75'']"

definition band_record :: "data_array \<Rightarrow> band_stats" where
  "band_record band_data =
     [(''mean'', xr_mean band_data),
      (''variance'', xr_var band_data),
      (''min'', case valid band_data of [] \<Rightarrow> NaN | x # xs \<Rightarrow> Val (fold min xs x)),
      (''max'', case valid band_data of [] \<Rightarrow> NaN | x # xs \<Rightarrow> Val (fold max xs x)),
      (''quantile25'', quantile1 (valid band_data) (1 / 4)),
      (''quantile50'', quantile1 (valid band_data) (1 / 2)),
      (''quantile75'', quantile1 (valid band_data) (3 / 4))]"

section \<open>Properties of the comparator\<close>

subsection \<open>The tolerance of one comparison\<close>

text \<open>
  Claim C1. With one band holding one statistic on both sides, the comparison of a
  computed value \<open>v\<close> with a reference \<open>r\<close> under the relative tolerance \<open>t\<close> passes
  exactly when \<open>|v - r| \<le> t * |r|\<close>, or when \<open>|v - r|\<close> is within the default
  absolute tolerance \<open>1e-12\<close> (which only matters for a reference near zero). Otherwise
  the run ends with \<^verbatim>\<open>AssertionError\<close>. Either way the comparison was announced in the
  log first.
\<close>

theorem tolerance_boundary:
  "assert_band_statistics [(band, [(stat, Val v)])] [(band, [(stat, Val r)])] t =
     (if \<bar>v - r\<bar> \<le> t * \<bar>r\<bar> \<or> \<bar>v - r\<bar> \<le> 1 / 10 ^ 12
      then Inr () else Inl AssertionError,
      [Info_comparing, Info_assertion band stat])"
  by (auto simp add: assert_band_statistics_def emit_def DEFAULT_ABSOLUTE_TOLERANCE_def
        abs_minus_commute max_def)

text \<open>
  At the reference \<open>100\<close> with tolerance \<open>1 / 100\<close>: the value \<open>101\<close>, exactly on the
  boundary, passes; \<open>101 + 1 / 1000\<close>, just beyond it, fails.
\<close>

theorem tolerance_boundary_witness:
  "fst (assert_band_statistics [(''B02'', [(''mean'', Val 101)])]
          [(''B02'', [(''mean'', Val 100)])] (1 / 100)) = Inr ()
   \<and> fst (assert_band_statistics [(''B02'', [(''mean'', Val (101 + 1 / 1000))])]
          [(''B02'', [(''mean'', Val 100)])] (1 / 100)) = Inl AssertionError"
  using tolerance_boundary [of "''B02''" "''mean''" 101 100 "1 / 100"]
    tolerance_boundary [of "''B02''" "''mean''" "101 + 1 / 1000" 100 "1 / 100"]
  by simp

subsection \<open>Missing keys and the first mismatch\<close>

lemma until_failure_append:
  "until_failure t (xs @ ys) =
     (if list_all (passes t) xs then xs @ until_failure t ys else until_failure t xs)"
  by (induction xs) auto

lemma until_failure_all: "list_all (passes t) es \<Longrightarrow> until_failure t es = es"
  by (induction es) auto

lemma assert_stats_events:
  "assert_stats band os gs t =
     (if list_all (passes t) (band_events band os gs) then Inr () else Inl AssertionError,
      map record_of (until_failure t (band_events band os gs)))"
  by (induction gs) (auto simp: band_events_def emit_def split: option.splits)

lemma assert_bands_events:
  "assert_bands out gt t =
     (if list_all (passes t) (events out gt) then Inr () else Inl AssertionError,
      map record_of (until_failure t (events out gt)))"
proof (induction out)
  case Nil
  show ?case by (simp add: events_def)
next
  case (Cons a out)
  obtain band os where a: "a = (band, os)" by (cases a)
  have ev: "events (a # out) gt =
      (case map_of gt band of None \<Rightarrow> [Band_missing band] | Some gs \<Rightarrow> band_events band os gs)
        @ events out gt"
    by (simp add: events_def a)
  show ?case
  proof (cases "map_of gt band")
    case None
    with Cons ev a show ?thesis by (simp add: emit_def)
  next
    case (Some gs)
    with Cons ev a show ?thesis
      by (auto simp: assert_stats_events until_failure_append until_failure_all)
  qed
qed

text \<open>
  Claim C5. The run of the comparator is its traversal up to the first comparison out of
  tolerance: every event on the way is logged, a missing band and a missing statistic as a
  warning, a comparison as the announcement of its assertion; the outcome is
  \<^verbatim>\<open>AssertionError\<close> when some comparison of the traversal is out of tolerance and a
  normal return otherwise. So a missing key never raises, and nothing after the first
  mismatch is examined or logged.
\<close>

theorem first_mismatch_raises:
  "assert_band_statistics out gt t =
     (if list_all (passes t) (events out gt) then Inr () else Inl AssertionError,
      Info_comparing # map record_of (until_failure t (events out gt)))"
  by (simp add: assert_band_statistics_def assert_bands_events emit_def)

text \<open>
  Band \<open>B01\<close> is absent from the reference and statistic \<open>min\<close> from the output: two
  warnings. The mean of \<open>B02\<close> is out of tolerance: the run ends there, before the
  mismatching \<open>max\<close> of \<open>B02\<close> and the mismatching band \<open>B03\<close>. With the keys missing and
  no mismatch, the run returns normally.
\<close>

theorem first_mismatch_raises_witness:
  "assert_band_statistics
     [(''B01'', [(''mean'', Val 1)]),
      (''B02'', [(''mean'', Val 5), (''max'', Val 9)]),
      (''B03'', [(''mean'', Val 7)])]
     [(''B02'', [(''min'', Val 0), (''mean'', Val 1), (''max'', Val 1)]),
      (''B03'', [(''mean'', Val 1)])]
     (1 / 100) =
     (Inl AssertionError,
      [Info_comparing, Warning_band_not_found ''B01'',
       Warning_stat_not_found ''min'' ''B02'', Info_assertion ''B02'' ''mean''])
   \<and> assert_band_statistics
     [(''B01'', [(''mean'', Val 1)]), (''B02'', [(''mean'', Val 1)])]
     [(''B02'', [(''min'', Val 0), (''mean'', Val 1)])]
     (1 / 100) =
     (Inr (),
      [Info_comparing, Warning_band_not_found ''B01'',
       Warning_stat_not_found ''min'' ''B02'', Info_assertion ''B02'' ''mean''])"
  using first_mismatch_raises
      [of "[(''B01'', [(''mean'', Val 1)]),
            (''B02'', [(''mean'', Val 5), (''max'', Val 9)]),
            (''B03'', [(''mean'', Val 7)])]"
          "[(''B02'', [(''min'', Val 0), (''mean'', Val 1), (''max'', Val 1)]),
            (''B03'', [(''mean'', Val 1)])]"
          "1 / 100"]
    first_mismatch_raises
      [of "[(''B01'', [(''mean'', Val 1)]), (''B02'', [(''mean'', Val 1)])]"
          "[(''B02'', [(''min'', Val 0), (''mean'', Val 1)])]"
          "1 / 100"]
  by (simp add: events_def band_events_def DEFAULT_ABSOLUTE_TOLERANCE_def)

subsection \<open>What the comparison covers\<close>

lemma assert_bands_reference_cong:
  "\<forall>b \<in> fst ` set out. map_of gt' b = map_of gt b \<Longrightarrow>
   assert_bands out gt' t = assert_bands out gt t"
  by (induction out) (auto split: option.splits prod.splits sum.splits)

lemma assert_stats_output_cong:
  "\<forall>s \<in> fst ` set gs. map_of os' s = map_of os s \<Longrightarrow>
   assert_stats b os' gs t = assert_stats b os gs t"
  by (induction gs) (auto split: option.splits)

lemma assert_bands_output_cong:
  "list_all2 (same_checked gt) out' out \<Longrightarrow> assert_bands out' gt t = assert_bands out gt t"
proof (induction out' out rule: list_all2_induct)
  case Nil
  show ?case by simp
next
  case (Cons x xs y ys)
  obtain b os' where x: "x = (b, os')" by (cases x)
  obtain b' os where y: "y = (b', os)" by (cases y)
  from Cons.hyps(1) x y have b: "b' = b" by (simp add: same_checked_def)
  show ?case
  proof (cases "map_of gt b")
    case None
    with Cons x y b show ?thesis by simp
  next
    case (Some gs)
    with Cons.hyps(1) x y b have "\<forall>s \<in> fst ` set gs. map_of os' s = map_of os s"
      by (auto simp: same_checked_def list_all_iff)
    then have "assert_stats b os' gs t = assert_stats b os gs t"
      by (rule assert_stats_output_cong)
    with Cons Some x y b show ?thesis by (simp split: prod.splits sum.splits)
  qed
qed

text \<open>
  Claim C8. The comparison reads the reference only at the bands of the output, and
  the output only at the statistic keys of the reference. Two references that agree on
  every band of the output give the same outcome and the same log: a band of the
  reference alone leaves no trace. Two outputs with the same bands in the same order that
  agree, band by band, on the reference's statistic keys give the same outcome and the
  same log: a statistic of the output alone is never checked.
\<close>

theorem coverage_is_asymmetric:
  "((\<forall>b \<in> fst ` set out. map_of gt' b = map_of gt b) \<longrightarrow>
      assert_band_statistics out gt' t = assert_band_statistics out gt t)
   \<and> (list_all2 (same_checked gt) out' out \<longrightarrow>
      assert_band_statistics out' gt t = assert_band_statistics out gt t)"
proof (intro conjI impI)
  assume "\<forall>b \<in> fst ` set out. map_of gt' b = map_of gt b"
  then have "assert_bands out gt' t = assert_bands out gt t"
    by (rule assert_bands_reference_cong)
  then show "assert_band_statistics out gt' t = assert_band_statistics out gt t"
    by (simp add: assert_band_statistics_def)
next
  assume "list_all2 (same_checked gt) out' out"
  then have "assert_bands out' gt t = assert_bands out gt t"
    by (rule assert_bands_output_cong)
  then show "assert_band_statistics out' gt t = assert_band_statistics out gt t"
    by (simp add: assert_band_statistics_def)
qed

text \<open>
  A band \<open>B99\<close> added to the reference and a statistic \<open>extra\<close> added to the output, far
  from anything, change nothing.
\<close>

theorem coverage_is_asymmetric_witness:
  "assert_band_statistics [(''B02'', [(''mean'', Val 1)])]
      [(''B02'', [(''mean'', Val 1)]), (''B99'', [(''mean'', Val 0)])] (1 / 100)
     = assert_band_statistics [(''B02'', [(''mean'', Val 1)])]
         [(''B02'', [(''mean'', Val 1)])] (1 / 100)
   \<and> assert_band_statistics [(''B02'', [(''mean'', Val 1), (''extra'', Val 1000)])]
        [(''B02'', [(''mean'', Val 1)])] (1 / 100)
     = assert_band_statistics [(''B02'', [(''mean'', Val 1)])]
         [(''B02'', [(''mean'', Val 1)])] (1 / 100)"
  using coverage_is_asymmetric
      [where out = "[(''B02'', [(''mean'', Val 1)])]"
         and gt = "[(''B02'', [(''mean'', Val 1)])]"
         and gt' = "[(''B02'', [(''mean'', Val 1)]), (''B99'', [(''mean'', Val 0)])]"
         and out' = "[(''B02'', [(''mean'', Val 1), (''extra'', Val 1000)])]"
         and t = "1 / 100"]
  by (simp add: same_checked_def)

subsection \<open>An output without bands\<close>

text \<open>
  Claim C9. For an empty computed statistics mapping the comparator returns normally,
  whatever the reference and the tolerance; the log holds its opening record only.
\<close>

theorem empty_output_passes:
  "assert_band_statistics [] groundtruth_band_dict tolerance = (Inr (), [Info_comparing])"
  by (simp add: assert_band_statistics_def emit_def)

section \<open>Properties of the reference loader\<close>

lemma has_key_subscript: "has_key d k \<Longrightarrow> \<exists>v. subscript d k = Inr v"
  by (cases d) auto

lemma not_has_key_subscript:
  "\<not> has_key d k \<Longrightarrow> subscript d k = Inl TypeError \<or> subscript d k = Inl (KeyError k)"
  by (cases d) (auto split: option.splits)

lemma scan_find:
  "\<forall>d \<in> set records. has_key d ''scenario_name'' \<Longrightarrow>
   scan records s =
     (case find (is_named s) records of
        None \<Rightarrow> Inl (ValueError_not_found s)
      | Some d \<Rightarrow> subscript d ''reference_data'')"
proof (induction records)
  case Nil
  show ?case by simp
next
  case (Cons d records)
  then obtain v where v: "subscript d ''scenario_name'' = Inr v"
    using has_key_subscript by fastforce
  with Cons show ?case by (simp add: is_named_def)
qed

lemma scan_stops_at_bad_record:
  assumes "\<forall>d \<in> set pre. has_key d ''scenario_name'' \<and> \<not> is_named s d"
    and "\<not> has_key bad ''scenario_name''"
  shows "scan (pre @ bad # post) s = subscript bad ''scenario_name''"
  using assms
proof (induction pre)
  case Nil
  then show ?case
    using not_has_key_subscript [of bad "''scenario_name''"] by auto
next
  case (Cons d pre)
  then obtain v where v: "subscript d ''scenario_name'' = Inr v"
    using has_key_subscript by fastforce
  with Cons show ?case by (auto simp: is_named_def)
qed

text \<open>
  Claim C4, as amended. For a reference file that parses to a list of records, each a
  mapping with the keys \<^verbatim>\<open>scenario_name\<close> and \<^verbatim>\<open>reference_data\<close>: when some record is
  named \<open>s\<close>, the loader returns the \<^verbatim>\<open>reference_data\<close> of the first such record, whatever
  that value is (an empty mapping included), and logs nothing but its opening record;
  when no record is named \<open>s\<close>, it raises the not-found \<^verbatim>\<open>ValueError\<close>, logged before it
  propagates.
\<close>

theorem first_match_or_not_found:
  assumes "\<forall>d \<in> set records. is_record d"
  shows "case find (is_named s) records of
           None \<Rightarrow>
             extract_reference_band_statistics (Inr (JArray records)) s =
               (Inl (ValueError_not_found s),
                [Info_extracting s, Error_extracting (ValueError_not_found s)])
         | Some d \<Rightarrow>
             (\<exists>v. subscript d ''reference_data'' = Inr v \<and>
                extract_reference_band_statistics (Inr (JArray records)) s =
                  (Inr v, [Info_extracting s]))"
proof (cases "find (is_named s) records")
  case None
  with assms show ?thesis
    by (simp add: extract_reference_band_statistics_def emit_def scan_find is_record_def)
next
  case (Some d)
  then have "d \<in> set records" by (auto simp: find_Some_iff)
  with assms have "has_key d ''reference_data''" by (simp add: is_record_def)
  then obtain v where v: "subscript d ''reference_data'' = Inr v"
    using has_key_subscript by blast
  with assms Some show ?thesis
    by (simp add: extract_reference_band_statistics_def emit_def scan_find is_record_def)
qed

text \<open>
  Two records are named \<open>s1\<close>: the first one wins. No record is named \<open>s3\<close>.
\<close>

theorem first_match_or_not_found_witness:
  "extract_reference_band_statistics
     (Inr (JArray
        [JObject [(''scenario_name'', JString ''s0''),
                  (''reference_data'', JObject [(''B01'', JObject [(''mean'', JNumber (Val 0))])])],
         JObject [(''scenario_name'', JString ''s1''),
                  (''reference_data'', JObject [(''B02'', JObject [(''mean'', JNumber (Val 1))])])],
         JObject [(''scenario_name'', JString ''s1''),
                  (''reference_data'', JObject [(''B02'', JObject [(''mean'', JNumber (Val 2))])])]]))
     ''s1''
   = (Inr (JObject [(''B02'', JObject [(''mean'', JNumber (Val 1))])]), [Info_extracting ''s1''])
   \<and> extract_reference_band_statistics
     (Inr (JArray
        [JObject [(''scenario_name'', JString ''s0''),
                  (''reference_data'', JObject [(''B01'', JObject [(''mean'', JNumber (Val 0))])])]]))
     ''s3''
   = (Inl (ValueError_not_found ''s3''),
      [Info_extracting ''s3'', Error_extracting (ValueError_not_found ''s3'')])"
  using first_match_or_not_found
      [of "[JObject [(''scenario_name'', JString ''s0''),
                  (''reference_data'', JObject [(''B01'', JObject [(''mean'', JNumber (Val 0))])])],
         JObject [(''scenario_name'', JString ''s1''),
                  (''reference_data'', JObject [(''B02'', JObject [(''mean'', JNumber (Val 1))])])],
         JObject [(''scenario_name'', JString ''s1''),
                  (''reference_data'', JObject [(''B02'', JObject [(''mean'', JNumber (Val 2))])])]]"
          "''s1''"]
    first_match_or_not_found
      [of "[JObject [(''scenario_name'', JString ''s0''),
                  (''reference_data'', JObject [(''B01'', JObject [(''mean'', JNumber (Val 0))])])]]"
          "''s3''"]
  by (simp add: is_record_def is_named_def)

text \<open>
  The claim as it is written fails twice. The scenario \<open>s1\<close> is present and its record
  stores an empty mapping: the loader returns the empty mapping. The scenario \<open>s1\<close> is
  present in the second record, and the first record has no \<^verbatim>\<open>scenario_name\<close>: the
  loader raises \<^verbatim>\<open>KeyError\<close> and returns nothing.
\<close>

theorem loader_returns_empty_mapping:
  "extract_reference_band_statistics
     (Inr (JArray [JObject [(''scenario_name'', JString ''s1''),
                            (''reference_data'', JObject [])]])) ''s1''
   = (Inr (JObject []), [Info_extracting ''s1''])
   \<and> fst (extract_reference_band_statistics
     (Inr (JArray [JObject [(''name'', JString ''s0'')],
                   JObject [(''scenario_name'', JString ''s1''),
                            (''reference_data'',
                               JObject [(''B02'', JObject [(''mean'', JNumber (Val 1))])])]]))
     ''s1'')
   = Inl (KeyError ''scenario_name'')"
  by (simp add: extract_reference_band_statistics_def emit_def)

text \<open>
  Claim C10. The file parses; its records up to some point are mappings with a
  \<^verbatim>\<open>scenario_name\<close> other than \<open>s\<close>, and the next one, \<open>bad\<close>, is not a mapping with the
  key \<^verbatim>\<open>scenario_name\<close>. Then the loader raises what the access
  \<^verbatim>\<open>bad['scenario_name']\<close> raises, \<^verbatim>\<open>TypeError\<close> or \<^verbatim>\<open>KeyError\<close>, logs it and raises it
  again; it is not the not-found error, whatever records follow \<open>bad\<close>, a record named
  \<open>s\<close> included.
\<close>

theorem bad_record_raises_before_match:
  assumes "iterate all_reference_data = Inr (pre @ bad # post)"
    and "\<forall>d \<in> set pre. has_key d ''scenario_name'' \<and> \<not> is_named s d"
    and "\<not> has_key bad ''scenario_name''"
  shows "\<exists>e. subscript bad ''scenario_name'' = Inl e
     \<and> (e = TypeError \<or> e = KeyError ''scenario_name'')
     \<and> e \<noteq> ValueError_not_found s
     \<and> extract_reference_band_statistics (Inr all_reference_data) s =
         (Inl e, [Info_extracting s, Error_extracting e])"
proof -
  from assms(2,3) have "scan (pre @ bad # post) s = subscript bad ''scenario_name''"
    by (rule scan_stops_at_bad_record)
  moreover from assms(3) have "subscript bad ''scenario_name'' = Inl TypeError
      \<or> subscript bad ''scenario_name'' = Inl (KeyError ''scenario_name'')"
    by (rule not_has_key_subscript)
  ultimately show ?thesis
    using assms(1) by (auto simp: extract_reference_band_statistics_def emit_def)
qed

text \<open>
  The second element of the file is a string, the third a record named \<open>s1\<close>: the
  loader raises \<^verbatim>\<open>TypeError\<close>.
\<close>

theorem bad_record_raises_before_match_witness:
  "extract_reference_band_statistics
     (Inr (JArray
        [JObject [(''scenario_name'', JString ''s0''), (''reference_data'', JObject [])],
         JString ''s1'',
         JObject [(''scenario_name'', JString ''s1''), (''reference_data'', JObject [])]]))
     ''s1''
   = (Inl TypeError, [Info_extracting ''s1'', Error_extracting TypeError])"
  using bad_record_raises_before_match
      [of "JArray
        [JObject [(''scenario_name'', JString ''s0''), (''reference_data'', JObject [])],
         JString ''s1'',
         JObject [(''scenario_name'', JString ''s1''), (''reference_data'', JObject [])]]"
        "[JObject [(''scenario_name'', JString ''s0''), (''reference_data'', JObject [])]]"
        "JString ''s1''"
        "[JObject [(''scenario_name'', JString ''s1''), (''reference_data'', JObject [])]]"
        "''s1''"]
  by (simp add: is_named_def)

section \<open>Properties of the calculator\<close>

lemma dict_set_fresh: "k \<notin> fst ` set d \<Longrightarrow> dict_set k v d = d @ [(k, v)]"
  by (induction d) auto

lemma calculate_loop_closed:
  assumes "distinct band_names"
    and "\<forall>n \<in> set band_names. \<exists>cells. map_of hypercube n = Some cells \<and> cells \<noteq> []"
    and "set band_names \<inter> fst ` set statistics = {}"
  shows "calculate_loop hypercube band_names statistics =
     Inr (statistics @ map (\<lambda>n. (n, band_record (the (map_of hypercube n)))) band_names)"
  using assms
proof (induction band_names arbitrary: statistics)
  case Nil
  show ?case by simp
next
  case (Cons n band_names)
  from Cons.prems(2) obtain cells where c: "map_of hypercube n = Some cells" "cells \<noteq> []"
    by auto
  let ?rec = "band_record cells"
  from Cons.prems(3) have fresh: "n \<notin> fst ` set statistics" by auto
  have step: "calculate_loop hypercube (n # band_names) statistics =
      calculate_loop hypercube band_names (statistics @ [(n, ?rec)])"
    using c fresh
    by (simp add: band_record_def xr_min_def xr_max_def xr_quantile_def dict_set_fresh Let_def
          split: list.splits)
  have "calculate_loop hypercube band_names (statistics @ [(n, ?rec)]) =
      Inr ((statistics @ [(n, ?rec)]) @
           map (\<lambda>n. (n, band_record (the (map_of hypercube n)))) band_names)"
  proof (rule Cons.IH)
    show "distinct band_names" using Cons.prems(1) by simp
    show "\<forall>n\<in>set band_names. \<exists>cells. map_of hypercube n = Some cells \<and> cells \<noteq> []"
      using Cons.prems(2) by simp
    show "set band_names \<inter> fst ` set (statistics @ [(n, ?rec)]) = {}"
      using Cons.prems(1,3) by auto
  qed
  with step c show ?case by simp
qed

lemma calculate_closed:
  assumes "distinct (map fst hypercube)"
    and "\<forall>v \<in> set hypercube. fst v \<noteq> ''crs'' \<longrightarrow> snd v \<noteq> []"
  shows "calculate_band_statistics hypercube =
     Inr (map (\<lambda>v. (fst v, band_record (snd v))) (filter (\<lambda>v. fst v \<noteq> ''crs'') hypercube))"
proof -
  let ?names = "filter (\<lambda>n. n \<noteq> ''crs'') (map fst hypercube)"
  have d: "distinct ?names" using assms(1) by simp
  have look: "\<And>v. v \<in> set hypercube \<Longrightarrow> map_of hypercube (fst v) = Some (snd v)"
    using assms(1) by (metis map_of_is_SomeI prod.collapse)
  have ne: "\<forall>n \<in> set ?names. \<exists>cells. map_of hypercube n = Some cells \<and> cells \<noteq> []"
    using assms(2) look by auto
  have "calculate_loop hypercube ?names [] =
      Inr ([] @ map (\<lambda>n. (n, band_record (the (map_of hypercube n)))) ?names)"
    using d ne by (rule calculate_loop_closed) simp
  moreover have "map (\<lambda>n. (n, band_record (the (map_of hypercube n)))) ?names =
      map (\<lambda>v. (fst v, band_record (snd v))) (filter (\<lambda>v. fst v \<noteq> ''crs'') hypercube)"
    using look by (simp add: filter_map comp_def)
  ultimately show ?thesis by (simp add: calculate_band_statistics_def)
qed

lemma band_record_keys: "map fst (band_record cells) = STATISTIC_NAMES"
  by (simp add: band_record_def STATISTIC_NAMES_def)

lemma band_record_all_missing:
  "valid cells = [] \<Longrightarrow> \<forall>x \<in> snd ` set (band_record cells). x = NaN"
  by (simp add: band_record_def xr_mean_def xr_var_def quantile1_def)

lemma calculate_B02:
  "calculate_band_statistics [(''B02'', [Val 1, Val 2, Val 3, Val 4])] =
     Inr [(''B02'',
           [(''mean'', Val (5 / 2)), (''variance'', Val (5 / 4)),
            (''min'', Val 1), (''max'', Val 4),
            (''quantile25'', Val (7 / 4)), (''quantile50'', Val (5 / 2)),
            (''quantile75'', Val (13 / 4))])]"
  by (simp add: calculate_band_statistics_def xr_mean_def xr_var_def xr_min_def xr_max_def
        xr_quantile_def quantile1_def Let_def power2_eq_square)

lemma calculate_zero_size:
  "calculate_band_statistics [(''B01'', [])] = Inl ValueError_zero_size"
  by (simp add: calculate_band_statistics_def xr_min_def)

text \<open>
  Claim C2, as amended. For a dataset (distinct variable names) whose variables other
  than \<open>crs\<close> each have at least one cell, the calculator returns a mapping whose keys
  are these variables, in the dataset's order: exactly \<open>N\<close> keys for \<open>N\<close> such variables.
  Every key maps to exactly the seven statistic fields, each a float. Nothing is said
  about the floats being finite: for a band whose cells are all missing, the seven
  fields are NaN.
\<close>

theorem seven_fields_per_band:
  assumes "distinct (map fst hypercube)"
    and "\<forall>v \<in> set hypercube. fst v \<noteq> ''crs'' \<longrightarrow> snd v \<noteq> []"
  shows "\<exists>statistics. calculate_band_statistics hypercube = Inr statistics
     \<and> map fst statistics = filter (\<lambda>n. n \<noteq> ''crs'') (map fst hypercube)
     \<and> distinct (map fst statistics)
     \<and> length statistics = length (filter (\<lambda>n. n \<noteq> ''crs'') (map fst hypercube))
     \<and> (\<forall>b \<in> set statistics.
          map fst (snd b) = STATISTIC_NAMES
          \<and> (\<exists>cells. map_of hypercube (fst b) = Some cells
                \<and> (valid cells = [] \<longrightarrow> (\<forall>x \<in> snd ` set (snd b). x = NaN))))"
proof -
  let ?st = "map (\<lambda>v. (fst v, band_record (snd v))) (filter (\<lambda>v. fst v \<noteq> ''crs'') hypercube)"
  have eq: "calculate_band_statistics hypercube = Inr ?st"
    using assms by (rule calculate_closed)
  have keys: "map fst ?st = filter (\<lambda>n. n \<noteq> ''crs'') (map fst hypercube)"
    by (simp add: filter_map comp_def)
  have dist: "distinct (map fst ?st)" using assms(1) by (simp only: keys) simp
  have len: "length ?st = length (filter (\<lambda>n. n \<noteq> ''crs'') (map fst hypercube))"
    by (simp only: keys [symmetric] length_map)
  have look: "\<And>v. v \<in> set hypercube \<Longrightarrow> map_of hypercube (fst v) = Some (snd v)"
    using assms(1) by (metis map_of_is_SomeI prod.collapse)
  have each: "\<forall>b \<in> set ?st. map fst (snd b) = STATISTIC_NAMES
          \<and> (\<exists>cells. map_of hypercube (fst b) = Some cells
                \<and> (valid cells = [] \<longrightarrow> (\<forall>x \<in> snd ` set (snd b). x = NaN)))"
    using look band_record_all_missing by (auto simp: band_record_keys)
  from eq keys dist len each show ?thesis by blast
qed

text \<open>
  Two bands and the variable \<open>crs\<close>: two keys, \<open>crs\<close> left out. The cells of the
  second band are all missing: its seven fields are NaN.
\<close>

theorem seven_fields_per_band_witness:
  "\<exists>statistics.
     calculate_band_statistics
       [(''B02'', [Val 1, Val 2, Val 3, Val 4]), (''crs'', [Val 0]), (''B03'', [NaN, NaN])]
       = Inr statistics
     \<and> map fst statistics = [''B02'', ''B03'']
     \<and> length statistics = 2
     \<and> map fst (snd (last statistics)) = STATISTIC_NAMES
     \<and> snd ` set (snd (last statistics)) = {NaN}"
proof -
  let ?ds = "[(''B02'', [Val 1, Val 2, Val 3, Val 4]), (''crs'', [Val 0]), (''B03'', [NaN, NaN])]"
  have h1: "distinct (map fst ?ds)" by simp
  have h2: "\<forall>v \<in> set ?ds. fst v \<noteq> ''crs'' \<longrightarrow> snd v \<noteq> []" by simp
  from seven_fields_per_band [OF h1 h2]
  obtain st where eq: "calculate_band_statistics ?ds = Inr st"
    and names: "map fst st = filter (\<lambda>n. n \<noteq> ''crs'') (map fst ?ds)"
    and len: "length st = length (filter (\<lambda>n. n \<noteq> ''crs'') (map fst ?ds))"
    and each: "\<forall>b \<in> set st. map fst (snd b) = STATISTIC_NAMES
          \<and> (\<exists>cells. map_of ?ds (fst b) = Some cells
                \<and> (valid cells = [] \<longrightarrow> (\<forall>x \<in> snd ` set (snd b). x = NaN)))"
    by (elim exE conjE)
  from names have names': "map fst st = [''B02'', ''B03'']" by simp
  from len have len': "length st = 2" by simp
  from names' obtain a b where ab: "st = [a, b]" and b: "fst b = ''B03''"
    by (auto simp: map_eq_Cons_conv)
  from ab have lastb: "last st = b" by simp
  from ab have "b \<in> set st" by simp
  with each have both: "map fst (snd b) = STATISTIC_NAMES
          \<and> (\<exists>cells. map_of ?ds (fst b) = Some cells
                \<and> (valid cells = [] \<longrightarrow> (\<forall>x \<in> snd ` set (snd b). x = NaN)))"
    by (rule bspec)
  then have keys: "map fst (snd b) = STATISTIC_NAMES" by (rule conjunct1)
  from both obtain cells where c1: "map_of ?ds (fst b) = Some cells"
    and c2: "valid cells = [] \<longrightarrow> (\<forall>x \<in> snd ` set (snd b). x = NaN)"
    by (elim conjE exE)
  from c1 have "cells = [NaN, NaN]" by (simp add: b)
  with c2 have nan: "\<forall>x \<in> snd ` set (snd b). x = NaN" by simp
  from keys have "snd b \<noteq> []" by (auto simp: STATISTIC_NAMES_def)
  with nan have "snd ` set (snd b) = {NaN}" by (cases "snd b") auto
  with eq names' len' keys lastb show ?thesis by simp
qed

text \<open>
  The claim as it is written fails on a band whose cells are all missing: the seven
  fields are NaN, which is not a finite float.
\<close>

theorem all_missing_band_gives_nan:
  "calculate_band_statistics [(''B01'', [NaN, NaN])] =
     Inr [(''B01'',
           [(''mean'', NaN), (''variance'', NaN), (''min'', NaN), (''max'', NaN),
            (''quantile25'', NaN), (''quantile50'', NaN), (''quantile75'', NaN)])]"
  by (simp add: calculate_band_statistics_def xr_mean_def xr_var_def xr_min_def xr_max_def
        xr_quantile_def quantile1_def)

text \<open>
  Claim C3. For the dataset with the single band \<open>B02\<close> holding \<open>1, 2, 3, 4\<close>, the
  calculator returns mean \<open>2.5\<close>, population variance \<open>1.25\<close>, min \<open>1\<close>, max \<open>4\<close> and the
  quartiles \<open>1.75\<close>, \<open>2.5\<close>, \<open>3.25\<close>. Compared with tolerance \<open>0.01\<close> against a
  reference holding the mean \<open>2.5\<close> alone, or all seven values, the comparator raises
  nothing.
\<close>

theorem example_B02:
  "calculate_band_statistics [(''B02'', [Val 1, Val 2, Val 3, Val 4])] =
     Inr [(''B02'',
           [(''mean'', Val (5 / 2)), (''variance'', Val (5 / 4)),
            (''min'', Val 1), (''max'', Val 4),
            (''quantile25'', Val (7 / 4)), (''quantile50'', Val (5 / 2)),
            (''quantile75'', Val (13 / 4))])]
   \<and> fst (assert_band_statistics
            [(''B02'',
              [(''mean'', Val (5 / 2)), (''variance'', Val (5 / 4)),
               (''min'', Val 1), (''max'', Val 4),
               (''quantile25'', Val (7 / 4)), (''quantile50'', Val (5 / 2)),
               (''quantile75'', Val (13 / 4))])]
            [(''B02'', [(''mean'', Val (5 / 2))])] (1 / 100)) = Inr ()
   \<and> fst (assert_band_statistics
            [(''B02'',
              [(''mean'', Val (5 / 2)), (''variance'', Val (5 / 4)),
               (''min'', Val 1), (''max'', Val 4),
               (''quantile25'', Val (7 / 4)), (''quantile50'', Val (5 / 2)),
               (''quantile75'', Val (13 / 4))])]
            [(''B02'',
              [(''mean'', Val (5 / 2)), (''variance'', Val (5 / 4)),
               (''min'', Val 1), (''max'', Val 4),
               (''quantile25'', Val (7 / 4)), (''quantile50'', Val (5 / 2)),
               (''quantile75'', Val (13 / 4))])] (1 / 100)) = Inr ()"
  by (simp add: calculate_B02 assert_band_statistics_def emit_def
        DEFAULT_ABSOLUTE_TOLERANCE_def)

section \<open>Properties of the orchestrator\<close>

lemma map_of_json_of_band_stats:
  "map_of (map (\<lambda>kv. (fst kv, json_of_band_stats (snd kv))) gt) band =
     map_option json_of_band_stats (map_of gt band)"
  by (induction gt) auto

lemma assert_stats_json_typed:
  "assert_stats_json band os (map (\<lambda>kv. (fst kv, JNumber (snd kv))) gs) t =
     assert_stats band os gs t"
  by (induction gs) (auto split: option.splits)

lemma member_of_json_of_statistics:
  "member_of band (json_of_statistics gt) = Inr (map_of gt band \<noteq> None)"
  by (simp add: json_of_statistics_def map_of_json_of_band_stats)

lemma subscript_json_of_statistics:
  "map_of gt band = Some gs \<Longrightarrow>
   subscript (json_of_statistics gt) band = Inr (json_of_band_stats gs)"
  by (simp add: json_of_statistics_def map_of_json_of_band_stats)

lemma items_of_json_of_band_stats:
  "items_of (json_of_band_stats gs) = Inr (map (\<lambda>kv. (fst kv, JNumber (snd kv))) gs)"
  by (simp add: json_of_band_stats_def)

lemma assert_bands_json_typed:
  "assert_bands_json out (json_of_statistics gt) t = assert_bands out gt t"
proof (induction out)
  case Nil
  show ?case by simp
next
  case (Cons a out)
  obtain band os where a: "a = (band, os)" by (cases a)
  show ?case
  proof (cases "map_of gt band")
    case None
    with Cons a show ?thesis
      by (simp add: member_of_json_of_statistics)
  next
    case (Some gs)
    with Cons a show ?thesis
      by (simp add: member_of_json_of_statistics subscript_json_of_statistics
            items_of_json_of_band_stats assert_stats_json_typed
            split: prod.splits sum.splits)
  qed
qed

text \<open>
  On a reference of the declared shape, the comparator for any JSON value is the
  comparator of the sections above.
\<close>

lemma assert_band_statistics_json_typed:
  "assert_band_statistics_json out (json_of_statistics gt) t = assert_band_statistics out gt t"
  by (simp add: assert_band_statistics_json_def assert_band_statistics_def
        assert_bands_json_typed)

text \<open>
  Claim C7. Whatever exception ends a run of \<^verbatim>\<open>execute_and_assert\<close>, the last record
  of the log is the error record of that exception. An exception raised by a step, the
  steps before it having succeeded, is the outcome of the run, unchanged: the job
  execution, the opening of the dataset, the calculation of the statistics, the loading
  of the reference, the comparison, whatever value the loader returned. A call without
  tolerance is the call with tolerance \<open>0.01\<close>.
\<close>

theorem exceptions_logged_and_reraised:
  "(fst (execute_and_assert env cube p s tol) = Inl e \<longrightarrow>
      snd (execute_and_assert env cube p s tol) \<noteq> []
      \<and> last (snd (execute_and_assert env cube p s tol)) = Error_execution e)
   \<and> (cube p s ''benchmarking-creo'' [(''driver-memory'', ''1g'')] = Some e \<longrightarrow>
        fst (execute_and_assert env cube p s tol) = Inl e)
   \<and> (cube p s ''benchmarking-creo'' [(''driver-memory'', ''1g'')] = None
        \<and> open_dataset env p = Inl e \<longrightarrow>
        fst (execute_and_assert env cube p s tol) = Inl e)
   \<and> (cube p s ''benchmarking-creo'' [(''driver-memory'', ''1g'')] = None
        \<and> open_dataset env p = Inr output_cube
        \<and> calculate_band_statistics output_cube = Inl e \<longrightarrow>
        fst (execute_and_assert env cube p s tol) = Inl e)
   \<and> (cube p s ''benchmarking-creo'' [(''driver-memory'', ''1g'')] = None
        \<and> open_dataset env p = Inr output_cube
        \<and> calculate_band_statistics output_cube = Inr output_band_stats
        \<and> fst (extract_reference_band_statistics (reference_file env) s) = Inl e \<longrightarrow>
        fst (execute_and_assert env cube p s tol) = Inl e)
   \<and> (cube p s ''benchmarking-creo'' [(''driver-memory'', ''1g'')] = None
        \<and> open_dataset env p = Inr output_cube
        \<and> calculate_band_statistics output_cube = Inr output_band_stats
        \<and> fst (extract_reference_band_statistics (reference_file env) s) = Inr reference_data
        \<and> fst (assert_band_statistics_json output_band_stats reference_data
                 (case tol of None \<Rightarrow> 1 / 100 | Some t \<Rightarrow> t)) = Inl e \<longrightarrow>
        fst (execute_and_assert env cube p s tol) = Inl e)
   \<and> execute_and_assert env cube p s None = execute_and_assert env cube p s (Some (1 / 100))"
  by (auto simp: execute_and_assert_def execute_steps_def Let_def
        split: prod.splits sum.splits option.splits)

text \<open>
  One run per step, each ending with the exception of that step: a failed job, an
  output file that cannot be opened, a band with no cell, a reference file that cannot
  be opened, and three comparisons: a mean out of tolerance, a reference mean that is a
  string, a reference that is a number. The log of the run with the string holds the
  records of the loader and of the comparator, then the error record.
\<close>

theorem exceptions_logged_and_reraised_witness:
  "fst (execute_and_assert
          \<lparr>open_dataset = (\<lambda>_. Inl (BackendError ''no file'')), reference_file = Inl OSError\<rparr>
          (\<lambda>_ _ _ _. Some (BackendError ''job failed'')) ''out.nc'' ''s1'' None)
      = Inl (BackendError ''job failed'')
   \<and> fst (execute_and_assert
          \<lparr>open_dataset = (\<lambda>_. Inl (BackendError ''no file'')), reference_file = Inl OSError\<rparr>
          (\<lambda>_ _ _ _. None) ''out.nc'' ''s1'' None)
      = Inl (BackendError ''no file'')
   \<and> fst (execute_and_assert
          \<lparr>open_dataset = (\<lambda>_. Inr [(''B01'', [])]), reference_file = Inl OSError\<rparr>
          (\<lambda>_ _ _ _. None) ''out.nc'' ''s1'' None)
      = Inl ValueError_zero_size
   \<and> fst (execute_and_assert
          \<lparr>open_dataset = (\<lambda>_. Inr [(''B02'', [Val 1, Val 2, Val 3, Val 4])]),
           reference_file = Inl OSError\<rparr>
          (\<lambda>_ _ _ _. None) ''out.nc'' ''s1'' None)
      = Inl OSError
   \<and> fst (execute_and_assert
          \<lparr>open_dataset = (\<lambda>_. Inr [(''B02'', [Val 1, Val 2, Val 3, Val 4])]),
           reference_file = Inr (JArray [JObject [(''scenario_name'', JString ''s1''),
              (''reference_data'', JObject [(''B02'', JObject [(''mean'', JNumber (Val 3))])])]])\<rparr>
          (\<lambda>_ _ _ _. None) ''out.nc'' ''s1'' None)
      = Inl AssertionError
   \<and> fst (execute_and_assert
          \<lparr>open_dataset = (\<lambda>_. Inr [(''B02'', [Val 1, Val 2, Val 3, Val 4])]),
           reference_file = Inr (JArray [JObject [(''scenario_name'', JString ''s1''),
              (''reference_data'', JObject [(''B02'', JObject [(''mean'', JString ''abc'')])])]])\<rparr>
          (\<lambda>_ _ _ _. None) ''out.nc'' ''s1'' None)
      = Inl AssertionError
   \<and> snd (execute_and_assert
          \<lparr>open_dataset = (\<lambda>_. Inr [(''B02'', [Val 1, Val 2, Val 3, Val 4])]),
           reference_file = Inr (JArray [JObject [(''scenario_name'', JString ''s1''),
              (''reference_data'', JObject [(''B02'', JObject [(''mean'', JString ''abc'')])])]])\<rparr>
          (\<lambda>_ _ _ _. None) ''out.nc'' ''s1'' None)
      = [Info_extracting ''s1'', Info_comparing, Info_assertion ''B02'' ''mean'',
         Error_execution AssertionError]
   \<and> fst (execute_and_assert
          \<lparr>open_dataset = (\<lambda>_. Inr [(''B02'', [Val 1, Val 2, Val 3, Val 4])]),
           reference_file = Inr (JArray [JObject [(''scenario_name'', JString ''s1''),
              (''reference_data'', JNumber (Val 7))]])\<rparr>
          (\<lambda>_ _ _ _. None) ''out.nc'' ''s1'' None)
      = Inl TypeError"
proof -
  let ?ds = "[(''B02'', [Val 1, Val 2, Val 3, Val 4])]"
  let ?e1 = "\<lparr>open_dataset = (\<lambda>_. Inl (BackendError ''no file'')), reference_file = Inl OSError\<rparr>"
  let ?e3 = "\<lparr>open_dataset = (\<lambda>_. Inr [(''B01'', [])]), reference_file = Inl OSError\<rparr>"
  let ?e4 = "\<lparr>open_dataset = (\<lambda>_. Inr ?ds), reference_file = Inl OSError\<rparr>"
  let ?r5 = "JObject [(''B02'', JObject [(''mean'', JNumber (Val 3))])]"
  let ?r6 = "JObject [(''B02'', JObject [(''mean'', JString ''abc'')])]"
  let ?r7 = "JNumber (Val 7)"
  let ?e5 = "\<lparr>open_dataset = (\<lambda>_. Inr ?ds),
           reference_file = Inr (JArray [JObject [(''scenario_name'', JString ''s1''),
              (''reference_data'', ?r5)]])\<rparr>"
  let ?e6 = "\<lparr>open_dataset = (\<lambda>_. Inr ?ds),
           reference_file = Inr (JArray [JObject [(''scenario_name'', JString ''s1''),
              (''reference_data'', ?r6)]])\<rparr>"
  let ?e7 = "\<lparr>open_dataset = (\<lambda>_. Inr ?ds),
           reference_file = Inr (JArray [JObject [(''scenario_name'', JString ''s1''),
              (''reference_data'', ?r7)]])\<rparr>"
  let ?st = "[(''B02'',
           [(''mean'', Val (5 / 2)), (''variance'', Val (5 / 4)),
            (''min'', Val 1), (''max'', Val 4),
            (''quantile25'', Val (7 / 4)), (''quantile50'', Val (5 / 2)),
            (''quantile75'', Val (13 / 4))])]"
  have s1: "fst (execute_and_assert ?e1 (\<lambda>_ _ _ _. Some (BackendError ''job failed''))
                   ''out.nc'' ''s1'' None) = Inl (BackendError ''job failed'')"
    using exceptions_logged_and_reraised
        [of ?e1 "\<lambda>_ _ _ _. Some (BackendError ''job failed'')" "''out.nc''" "''s1''" None
          "BackendError ''job failed''", THEN conjunct2, THEN conjunct1]
    by simp
  have s2: "fst (execute_and_assert ?e1 (\<lambda>_ _ _ _. None) ''out.nc'' ''s1'' None)
      = Inl (BackendError ''no file'')"
    using exceptions_logged_and_reraised
        [of ?e1 "\<lambda>_ _ _ _. None" "''out.nc''" "''s1''" None "BackendError ''no file''",
          THEN conjunct2, THEN conjunct2, THEN conjunct1]
    by simp
  have s3: "fst (execute_and_assert ?e3 (\<lambda>_ _ _ _. None) ''out.nc'' ''s1'' None)
      = Inl ValueError_zero_size"
    using exceptions_logged_and_reraised
        [of ?e3 "\<lambda>_ _ _ _. None" "''out.nc''" "''s1''" None ValueError_zero_size
          "[(''B01'', [])]",
          THEN conjunct2, THEN conjunct2, THEN conjunct2, THEN conjunct1]
    by (simp add: calculate_zero_size)
  have s4: "fst (execute_and_assert ?e4 (\<lambda>_ _ _ _. None) ''out.nc'' ''s1'' None) = Inl OSError"
    using exceptions_logged_and_reraised
        [of ?e4 "\<lambda>_ _ _ _. None" "''out.nc''" "''s1''" None OSError ?ds ?st,
          THEN conjunct2, THEN conjunct2, THEN conjunct2, THEN conjunct2, THEN conjunct1]
    by (simp add: calculate_B02 extract_reference_band_statistics_def emit_def)
  have s5: "fst (execute_and_assert ?e5 (\<lambda>_ _ _ _. None) ''out.nc'' ''s1'' None)
      = Inl AssertionError"
    using exceptions_logged_and_reraised
        [of ?e5 "\<lambda>_ _ _ _. None" "''out.nc''" "''s1''" None AssertionError ?ds ?st ?r5,
          THEN conjunct2, THEN conjunct2, THEN conjunct2, THEN conjunct2, THEN conjunct2,
          THEN conjunct1]
    by (simp add: calculate_B02 extract_reference_band_statistics_def emit_def
          assert_band_statistics_json_def DEFAULT_ABSOLUTE_TOLERANCE_def)
  have s6: "fst (execute_and_assert ?e6 (\<lambda>_ _ _ _. None) ''out.nc'' ''s1'' None)
      = Inl AssertionError"
    using exceptions_logged_and_reraised
        [of ?e6 "\<lambda>_ _ _ _. None" "''out.nc''" "''s1''" None AssertionError ?ds ?st ?r6,
          THEN conjunct2, THEN conjunct2, THEN conjunct2, THEN conjunct2, THEN conjunct2,
          THEN conjunct1]
    by (simp add: calculate_B02 extract_reference_band_statistics_def emit_def
          assert_band_statistics_json_def)
  have l6: "snd (execute_and_assert ?e6 (\<lambda>_ _ _ _. None) ''out.nc'' ''s1'' None)
      = [Info_extracting ''s1'', Info_comparing, Info_assertion ''B02'' ''mean'',
         Error_execution AssertionError]"
    by (simp add: execute_and_assert_def execute_steps_def calculate_B02
          extract_reference_band_statistics_def emit_def assert_band_statistics_json_def)
  have s7: "fst (execute_and_assert ?e7 (\<lambda>_ _ _ _. None) ''out.nc'' ''s1'' None)
      = Inl TypeError"
    using exceptions_logged_and_reraised
        [of ?e7 "\<lambda>_ _ _ _. None" "''out.nc''" "''s1''" None TypeError ?ds ?st ?r7,
          THEN conjunct2, THEN conjunct2, THEN conjunct2, THEN conjunct2, THEN conjunct2,
          THEN conjunct1]
    by (simp add: calculate_B02 extract_reference_band_statistics_def emit_def
          assert_band_statistics_json_def)
  from s1 s2 s3 s4 s5 s6 l6 s7 show ?thesis by simp
qed

end
